theory Spec2Isabelle
  imports Main "HOL-Library.Word"
begin

section \<open>ContractDeployer of protocol/utility_contracts/contract_deployer.py\<close>

text \<open>
  The module derives the addresses of contracts deployed on the layer-2 network and builds
  the calldata of the deployer's two entry points. Everything in it is a pure function of
  its arguments and of the libraries it calls. The embedding keeps the names of the source;
  a leading underscore is dropped (\<open>_hash_byte_code\<close> is \<open>hash_byte_code\<close> here),
  since an Isabelle name starts with a letter.
\<close>

subsection \<open>Data\<close>

text \<open>Python's \<open>bytes\<close>: a sequence of octets.\<close>

type_synonym bytes = "8 word list"

text \<open>
  The exceptions the module can raise, each with the text it carries. The module raises
  \<open>OverflowError\<close> itself (lines 48, 68, 88 and 117); \<open>int.to_bytes\<close> raises the same
  class when the number does not fit the requested length (line 50); indexing a tuple out
  of range raises \<open>IndexError\<close> (line 132) and a missing dictionary key raises
  \<open>KeyError\<close> (line 133).
\<close>

datatype error = OverflowError string | IndexError string | KeyError string

text \<open>
  A value handed to the ABI encoder: the argument lists of lines 71-76 and 91-96 hold byte
  strings and the integer \<open>0\<close>.
\<close>

datatype abi_arg = ArgBytes bytes | ArgInt int

text \<open>
  One decoded event of a receipt (web3's \<open>EventData\<close>, a typed dictionary): the name of
  the event and the dictionary of its named arguments.
\<close>

record EventData =
  event :: string
  args :: "string \<rightharpoonup> string"

text \<open>
  The libraries behind a \<open>ContractDeployer\<close> object. Their code is not part of the module,
  so each is a field of the record and every theorem below holds for whatever functions stand
  there:
  \<^item> \<open>sha256\<close>: \<open>hashlib.sha256(b).hexdigest()\<close> read back with \<open>bytes.fromhex\<close>, that is
    the digest of \<open>b\<close>;
  \<^item> \<open>keccak\<close>: \<open>eth_utils.crypto.keccak\<close> on bytes;
  \<^item> \<open>get_data\<close>: the bytes of an address given as hexadecimal text (see below);
  \<^item> \<open>toChecksumAddress\<close>: \<open>Web3.toChecksumAddress\<close>;
  \<^item> \<open>encodeABI\<close>: \<open>self.contract_deployer.encodeABI(fn_name, args)\<close>, the encoder of the
    contract object built in \<open>__init__\<close> from \<open>web3\<close> and the ABI;
  \<^item> \<open>processReceipt\<close>: \<open>self.contract_deployer.events.ContractDeployed().processReceipt\<close>,
    the decoded \<open>ContractDeployed\<close> events of a receipt, in order.

  Modelled from the spec: \<open>get_data\<close> is a function of \<open>core/utils.py\<close>, which is not among
  the sources. The specification only says that the sender is an address whose byte value is
  padded to 32 bytes, so the conversion of the textual address into its bytes is left open
  as a field of this record.
\<close>

record ('enc, 'rcpt) ContractDeployer =
  sha256 :: "bytes \<Rightarrow> bytes"
  keccak :: "bytes \<Rightarrow> bytes"
  get_data :: "string \<Rightarrow> bytes"
  toChecksumAddress :: "string \<Rightarrow> string"
  encodeABI :: "string \<Rightarrow> abi_arg list \<Rightarrow> 'enc"
  processReceipt :: "'rcpt \<Rightarrow> EventData list"

subsection \<open>Python built-ins the module uses\<close>

text \<open>
  \<open>n.to_bytes(length, byteorder='big')\<close> for \<open>n \<ge> 0\<close>: the \<open>length\<close> big-endian base-256
  digits of \<open>n\<close>, or \<open>OverflowError\<close> when \<open>n\<close> needs more digits.
\<close>

primrec big_endian :: "nat \<Rightarrow> nat \<Rightarrow> bytes" where
  "big_endian 0 n = []"
| "big_endian (Suc k) n = big_endian k (n div 256) @ [of_nat (n mod 256)]"

definition to_bytes :: "nat \<Rightarrow> nat \<Rightarrow> error + bytes" where
  "to_bytes n len =
     (if n < 256 ^ len then Inr (big_endian len n)
      else Inl (OverflowError ''int too big to convert''))"

text \<open>\<open>int.from_bytes(bs, byteorder='big')\<close>, to say what a byte string denotes.\<close>

definition from_bytes :: "bytes \<Rightarrow> nat" where
  "from_bytes bs = foldl (\<lambda>acc b. acc * 256 + unat b) 0 bs"

text \<open>\<open>bytes.hex()\<close>: two lower-case hexadecimal digits for each byte.\<close>

definition hex_digit :: "nat \<Rightarrow> char" where
  "hex_digit n = ''0123456789abcdef'' ! n"

fun bytes_hex :: "bytes \<Rightarrow> string" where
  "bytes_hex [] = []"
| "bytes_hex (b # bs) = hex_digit (unat b div 16) # hex_digit (unat b mod 16) # bytes_hex bs"

text \<open>
  \<open>keccak(text=s)\<close> hashes the UTF-8 encoding of \<open>s\<close>; a \<open>string\<close> here is already a
  list of bytes, and the two texts the module hashes are ASCII.
\<close>

definition text_bytes :: "string \<Rightarrow> bytes" where
  "text_bytes s = map (\<lambda>c. of_nat (of_char c)) s"

subsection \<open>Helpers of core/utils.py\<close>

text \<open>
  Modelled from the spec: \<open>pad_front_bytes\<close> is a function of \<open>core/utils.py\<close>, which is not
  among the sources. The specification says: pad to 32 bytes by left-zero-padding. Zero
  bytes are put in front until the needed length is reached; a longer sequence is left as it
  is.
\<close>

definition pad_front_bytes :: "bytes \<Rightarrow> nat \<Rightarrow> bytes" where
  "pad_front_bytes bs needed_length = replicate (needed_length - length bs) 0 @ bs"

text \<open>
  Modelled from the spec: \<open>int_to_bytes\<close> is a function of \<open>core/utils.py\<close>, which is not
  among the sources. The specification says: the nonce is an unsigned integer, serialized
  big-endian. The shortest big-endian form is taken (no leading zero byte, the empty
  sequence for 0); the padding that follows makes the choice of length immaterial.
\<close>

fun int_to_bytes :: "nat \<Rightarrow> bytes" where
  "int_to_bytes n = (if n = 0 then [] else int_to_bytes (n div 256) @ [of_nat (n mod 256)])"

declare int_to_bytes.simps [simp del]

subsection \<open>The class ContractDeployer\<close>

definition DEFAULT_SALT :: bytes where
  "DEFAULT_SALT = replicate 32 0"

definition CREATE_FUNC :: string where
  "CREATE_FUNC = ''create''"

definition CREATE2_FUNC :: string where
  "CREATE2_FUNC = ''create2''"

definition MAX_BYTE_CODE_LENGTH :: nat where
  "MAX_BYTE_CODE_LENGTH = 2 ^ 16"

definition EMPTY_BYTES :: bytes where
  "EMPTY_BYTES = []"

definition CREATE_PREFIX :: "('enc, 'rcpt) ContractDeployer \<Rightarrow> bytes" where
  "CREATE_PREFIX d = keccak d (text_bytes ''zksyncCreate'')"

definition CREATE2_PREFIX :: "('enc, 'rcpt) ContractDeployer \<Rightarrow> bytes" where
  "CREATE2_PREFIX d = keccak d (text_bytes ''zksyncCreate2'')"

text \<open>
  Lines 45-51. \<open>int(len(bytecode) / 32)\<close> divides as a float and truncates. A length below
  \<open>2^53\<close> is a float exactly and a division by 32 only changes the exponent, so the result
  is \<open>len div 32\<close>; from \<open>2^53\<close> on the quotient is at least \<open>2^48\<close> whatever the
  rounding, and the guard of line 47 raises as it does for \<open>len div 32\<close>.

  The guard lets a word count of exactly \<open>2^16\<close> pass; the conversion to two bytes on
  line 50 then raises.
\<close>

definition hash_byte_code :: "('enc, 'rcpt) ContractDeployer \<Rightarrow> bytes \<Rightarrow> error + bytes" where
  "hash_byte_code d bytecode =
     (let bytecode_len = length bytecode div 32 in
      if bytecode_len > MAX_BYTE_CODE_LENGTH
      then Inl (OverflowError
        ''ContractDeployer._hash_byte_code, bytecode length must be less than 2^16'')
      else
        let byte_code_hash = sha256 d bytecode in
        case to_bytes bytecode_len 2 of
          Inl e \<Rightarrow> Inl e
        | Inr prefix \<Rightarrow> Inr (prefix @ drop 2 byte_code_hash))"

text \<open>
  Lines 53-79. An argument that is left out is \<open>None\<close>. The salt is checked before the
  bytecode is hashed.
\<close>

definition encode_create2 ::
  "('enc, 'rcpt) ContractDeployer \<Rightarrow> bytes \<Rightarrow> bytes option \<Rightarrow> bytes option \<Rightarrow> error + 'enc" where
  "encode_create2 d bytecode call_data salt =
     (let salt = (case salt of None \<Rightarrow> DEFAULT_SALT | Some s \<Rightarrow> s);
          call_data = (case call_data of None \<Rightarrow> EMPTY_BYTES | Some c \<Rightarrow> c)
      in
        if length salt \<noteq> 32 then Inl (OverflowError ''Salt data must be 32 length'')
        else
          case hash_byte_code d bytecode of
            Inl e \<Rightarrow> Inl e
          | Inr bytecode_hash \<Rightarrow>
              Inr (encodeABI d CREATE2_FUNC
                [ArgBytes salt, ArgBytes bytecode_hash, ArgInt 0, ArgBytes call_data]))"

text \<open>Lines 81-98: the same with the name \<open>create\<close>.\<close>

definition encode_create ::
  "('enc, 'rcpt) ContractDeployer \<Rightarrow> bytes \<Rightarrow> bytes option \<Rightarrow> bytes option \<Rightarrow> error + 'enc" where
  "encode_create d bytecode call_data salt_data =
     (let salt_data = (case salt_data of None \<Rightarrow> DEFAULT_SALT | Some s \<Rightarrow> s);
          call_data = (case call_data of None \<Rightarrow> EMPTY_BYTES | Some c \<Rightarrow> c)
      in
        if length salt_data \<noteq> 32 then Inl (OverflowError ''Salt data must be 32 length'')
        else
          case hash_byte_code d bytecode of
            Inl e \<Rightarrow> Inl e
          | Inr bytecode_hash \<Rightarrow>
              Inr (encodeABI d CREATE_FUNC
                [ArgBytes salt_data, ArgBytes bytecode_hash, ArgInt 0, ArgBytes call_data]))"

text \<open>
  Lines 100-109. The nonce is a natural number: the specification's nonce is unsigned.
\<close>

definition compute_l2_create_address ::
  "('enc, 'rcpt) ContractDeployer \<Rightarrow> string \<Rightarrow> nat \<Rightarrow> string" where
  "compute_l2_create_address d sender nonce =
     (let sender_bytes = get_data d sender;
          sender_bytes = pad_front_bytes sender_bytes 32;
          nonce = int_to_bytes nonce;
          nonce_bytes = pad_front_bytes nonce 32;
          result = CREATE_PREFIX d @ sender_bytes @ nonce_bytes;
          sha_result = keccak d result;
          address = drop 12 sha_result;
          address = ''0x'' @ bytes_hex address
      in toChecksumAddress d address)"

text \<open>
  Lines 111-128, in two parts: \<open>create2_result\<close> is the function up to line 124 and yields
  the byte string named \<open>result\<close> there (or the exception raised before it is built);
  \<open>compute_l2_create2_address\<close> goes on from line 125.
\<close>

definition create2_result ::
  "('enc, 'rcpt) ContractDeployer \<Rightarrow> string \<Rightarrow> bytes \<Rightarrow> bytes \<Rightarrow> bytes \<Rightarrow> error + bytes" where
  "create2_result d sender bytecode constructor salt =
     (if length salt \<noteq> 32 then Inl (OverflowError ''Salt data must be 32 length'')
      else
        let sender_bytes = get_data d sender;
            sender_bytes = pad_front_bytes sender_bytes 32
        in
          case hash_byte_code d bytecode of
            Inl e \<Rightarrow> Inl e
          | Inr bytecode_hash \<Rightarrow>
              let ctor_hash = keccak d constructor
              in Inr (CREATE2_PREFIX d @ sender_bytes @ salt @ bytecode_hash @ ctor_hash))"

definition compute_l2_create2_address ::
  "('enc, 'rcpt) ContractDeployer \<Rightarrow> string \<Rightarrow> bytes \<Rightarrow> bytes \<Rightarrow> bytes \<Rightarrow> error + string" where
  "compute_l2_create2_address d sender bytecode constructor salt =
     (case create2_result d sender bytecode constructor salt of
        Inl e \<Rightarrow> Inl e
      | Inr result \<Rightarrow>
          let sha_result = keccak d result;
              address = drop 12 sha_result;
              address = ''0x'' @ bytes_hex address
          in Inr (toChecksumAddress d address))"

text \<open>
  Lines 130-134. \<open>result[1]\<close> raises \<open>IndexError\<close> unless the tuple has two entries;
  \<open>entry["contractAddress"]\<close> raises \<open>KeyError\<close> when the key is missing.
\<close>

definition extract_contract_address ::
  "('enc, 'rcpt) ContractDeployer \<Rightarrow> 'rcpt \<Rightarrow> error + string" where
  "extract_contract_address d receipt =
     (let result = processReceipt d receipt in
      if 1 < length result then
        let entry = args (result ! 1) in
        case entry ''contractAddress'' of
          None \<Rightarrow> Inl (KeyError ''contractAddress'')
        | Some addr \<Rightarrow> Inr addr
      else Inl (IndexError ''tuple index out of range''))"

subsection \<open>The address derivations in the words of the specification\<close>

text \<open>
  The specification describes the two derivations with a domain prefix, a left-zero-padding
  to 32 bytes, the low 20 bytes \<open>digest[12:32]\<close> of a digest and a checksum formatter from
  20 bytes to text. These definitions follow its wording; the theorems below compare them
  with the functions of the module.
\<close>

definition spec_domain_prefix :: "('enc, 'rcpt) ContractDeployer \<Rightarrow> string \<Rightarrow> bytes" where
  "spec_domain_prefix d s = keccak d (text_bytes s)"

definition spec_left_zero_pad32 :: "bytes \<Rightarrow> bytes" where
  "spec_left_zero_pad32 bs = replicate (32 - length bs) 0 @ bs"

definition spec_low_20_bytes :: "bytes \<Rightarrow> bytes" where
  "spec_low_20_bytes digest = take 20 (drop 12 digest)"

definition spec_checksum_formatted :: "('enc, 'rcpt) ContractDeployer \<Rightarrow> bytes \<Rightarrow> string" where
  "spec_checksum_formatted d address = toChecksumAddress d (''0x'' @ bytes_hex address)"

definition spec_create_address ::
  "('enc, 'rcpt) ContractDeployer \<Rightarrow> string \<Rightarrow> nat \<Rightarrow> string" where
  "spec_create_address d sender nonce =
     spec_checksum_formatted d (spec_low_20_bytes (keccak d
       (spec_domain_prefix d ''zksyncCreate''
        @ spec_left_zero_pad32 (get_data d sender)
        @ spec_left_zero_pad32 (int_to_bytes nonce))))"

definition spec_create2_address ::
  "('enc, 'rcpt) ContractDeployer \<Rightarrow> string \<Rightarrow> bytes \<Rightarrow> bytes \<Rightarrow> bytes \<Rightarrow> string" where
  "spec_create2_address d sender salt bytecode_hash constructor_args =
     spec_checksum_formatted d (spec_low_20_bytes (keccak d
       (spec_domain_prefix d ''zksyncCreate2''
        @ spec_left_zero_pad32 (get_data d sender)
        @ salt
        @ bytecode_hash
        @ keccak d constructor_args)))"

subsection \<open>A deployer to instantiate the theorems\<close>

text \<open>
  A \<open>ContractDeployer\<close> whose libraries are small stand-ins: both digests have 32 bytes (the
  length of the input in the last byte), the encoder returns the name and the argument list
  it was called with, a receipt is the list of its decoded events. It serves to apply the
  theorems to concrete inputs; none of the theorems is about it.
\<close>

definition sample_digest :: "bytes \<Rightarrow> bytes" where
  "sample_digest bs = replicate 31 0 @ [of_nat (length bs)]"

definition sample_deployer :: "(string \<times> abi_arg list, EventData list) ContractDeployer" where
  "sample_deployer =
     \<lparr> sha256 = sample_digest,
       keccak = sample_digest,
       get_data = (\<lambda>s. replicate 20 (of_nat (length s))),
       toChecksumAddress = (\<lambda>s. s),
       encodeABI = (\<lambda>fn_name xs. (fn_name, xs)),
       processReceipt = (\<lambda>receipt. receipt) \<rparr>"

definition sample_event :: "string \<Rightarrow> string \<Rightarrow> EventData" where
  "sample_event k v = \<lparr> event = ''ContractDeployed'', args = [k \<mapsto> v] \<rparr>"

section \<open>Properties\<close>

subsection \<open>Bytes and numbers\<close>

lemma big_endian_length: "length (big_endian k n) = k"
  by (induction k arbitrary: n) simp_all

lemma to_bytes_two:
  "to_bytes n 2 =
     (if n < 65536 then Inr [of_nat (n div 256 mod 256), of_nat (n mod 256)]
      else Inl (OverflowError ''int too big to convert''))"
  by (simp add: to_bytes_def numeral_2_eq_2)

lemma from_bytes_snoc: "from_bytes (bs @ [b]) = from_bytes bs * 256 + unat b"
  by (simp add: from_bytes_def)

lemma unat_byte_of_nat: "unat (of_nat (n mod 256) :: 8 word) = n mod 256"
  by (simp add: unat_of_nat)

lemma from_bytes_big_endian: "n < 256 ^ k \<Longrightarrow> from_bytes (big_endian k n) = n"
proof (induction k arbitrary: n)
  case 0
  then show ?case by (simp add: from_bytes_def)
next
  case (Suc k)
  from Suc.prems have "n div 256 < 256 ^ k"
    by (simp add: less_mult_imp_div_less mult.commute)
  then have "from_bytes (big_endian k (n div 256)) = n div 256"
    by (rule Suc.IH)
  then show ?case
    by (simp add: from_bytes_snoc unat_byte_of_nat)
qed

lemma from_bytes_zeros: "from_bytes (replicate k 0 @ bs) = from_bytes bs"
proof -
  have "foldl (\<lambda>acc b. acc * 256 + unat b) 0 (replicate k (0 :: 8 word)) = 0"
    by (induction k) simp_all
  then show ?thesis by (simp add: from_bytes_def)
qed

lemma from_bytes_int_to_bytes: "from_bytes (int_to_bytes n) = n"
proof (induction n rule: int_to_bytes.induct)
  case (1 n)
  show ?case
  proof (cases "n = 0")
    case True
    then show ?thesis by (simp add: int_to_bytes.simps from_bytes_def)
  next
    case False
    with 1 have "from_bytes (int_to_bytes (n div 256)) = n div 256" by simp
    with False show ?thesis
      by (subst int_to_bytes.simps) (simp add: from_bytes_snoc unat_byte_of_nat)
  qed
qed

lemma pad_int_to_bytes:
  "n < 256 ^ k \<Longrightarrow> replicate (k - length (int_to_bytes n)) 0 @ int_to_bytes n = big_endian k n"
proof (induction k arbitrary: n)
  case 0
  then show ?case by (simp add: int_to_bytes.simps)
next
  case (Suc k)
  show ?case
  proof (cases "n = 0")
    case True
    have "big_endian k 0 = replicate k (0 :: 8 word)"
      using Suc.IH [of 0] by (simp add: int_to_bytes.simps)
    then show ?thesis
      using True by (simp add: int_to_bytes.simps replicate_append_same)
  next
    case False
    from Suc.prems have "n div 256 < 256 ^ k"
      by (simp add: less_mult_imp_div_less mult.commute)
    then have "replicate (k - length (int_to_bytes (n div 256))) 0 @ int_to_bytes (n div 256)
        = big_endian k (n div 256)"
      by (rule Suc.IH)
    with False show ?thesis
      by (subst (1 2) int_to_bytes.simps) simp
  qed
qed

lemma pad_front_bytes_32: "pad_front_bytes bs 32 = spec_left_zero_pad32 bs"
  by (simp add: pad_front_bytes_def spec_left_zero_pad32_def)

lemma drop_12_digest: "length digest = 32 \<Longrightarrow> drop 12 digest = spec_low_20_bytes digest"
  by (simp add: spec_low_20_bytes_def)

subsection \<open>The bytecode hash\<close>

text \<open>Below the limit the function returns the two length bytes and the digest from its third byte on.\<close>

lemma hash_byte_code_ok:
  "length bytecode div 32 \<le> 65535 \<Longrightarrow>
   hash_byte_code d bytecode = Inr (big_endian 2 (length bytecode div 32) @ drop 2 (sha256 d bytecode))"
  by (simp add: hash_byte_code_def Let_def to_bytes_def MAX_BYTE_CODE_LENGTH_def)

text \<open>
  Which statement raises. Above \<open>2^16\<close> words it is the guard of line 47. At exactly
  \<open>2^16\<close> words the guard does not fire, although its message asks for a length below
  \<open>2^16\<close>; the digest is computed and \<open>to_bytes(2, ...)\<close> on line 50 raises instead, with
  the same exception class and another message.
\<close>

lemma hash_byte_code_raise_site:
  "(65536 < length bytecode div 32 \<longrightarrow>
      hash_byte_code d bytecode = Inl (OverflowError
        ''ContractDeployer._hash_byte_code, bytecode length must be less than 2^16''))
   \<and> (length bytecode div 32 = 65536 \<longrightarrow>
      hash_byte_code d bytecode = Inl (OverflowError ''int too big to convert''))"
  by (simp add: hash_byte_code_def MAX_BYTE_CODE_LENGTH_def to_bytes_two Let_def)

text \<open>
  C1. \<open>hash_byte_code\<close> raises \<open>OverflowError\<close>, the exception that stands for a bytecode
  that is too large, exactly when the bytecode has more than 65535 complete 32-byte words.
  In particular a bytecode of exactly 65536 words makes it raise; it returns no hash.
\<close>

theorem hash_byte_code_fails_iff:
  "((\<exists>msg. hash_byte_code d bytecode = Inl (OverflowError msg))
      \<longleftrightarrow> 65535 < length bytecode div 32)
   \<and> (length bytecode div 32 = 65536
      \<longrightarrow> (\<exists>msg. hash_byte_code d bytecode = Inl (OverflowError msg))
          \<and> (\<forall>h. hash_byte_code d bytecode \<noteq> Inr h))"
  by (auto simp add: hash_byte_code_def MAX_BYTE_CODE_LENGTH_def to_bytes_two Let_def)

theorem hash_byte_code_fails_iff_witness:
  "length (replicate 2097152 (0 :: 8 word)) div 32 = 65536
   \<and> (\<exists>msg. hash_byte_code sample_deployer (replicate 2097152 0) = Inl (OverflowError msg))
   \<and> (\<forall>h. hash_byte_code sample_deployer (replicate 2097152 0) \<noteq> Inr h)"
  using hash_byte_code_fails_iff [of sample_deployer "replicate 2097152 0"]
  by simp

text \<open>
  C2. For a bytecode of at most 65535 words, and a SHA-256 digest of 32 bytes,
  \<open>hash_byte_code\<close> returns 32 bytes: the first two are the word count
  \<open>len(bytecode) div 32\<close> as a big-endian 16-bit number, the other thirty are the bytes
  \<open>[2:32)\<close> of the digest of the bytecode.
\<close>

theorem hash_byte_code_format:
  assumes "length bytecode div 32 \<le> 65535" and "length (sha256 d bytecode) = 32"
  shows "\<exists>h. hash_byte_code d bytecode = Inr h
           \<and> length h = 32
           \<and> take 2 h = big_endian 2 (length bytecode div 32)
           \<and> from_bytes (take 2 h) = length bytecode div 32
           \<and> drop 2 h = take 30 (drop 2 (sha256 d bytecode))"
proof -
  let ?n = "length bytecode div 32"
  from assms(1) have small: "?n < 256 ^ 2" by simp
  then have tb: "to_bytes ?n 2 = Inr (big_endian 2 ?n)"
    by (simp add: to_bytes_def)
  from assms(1) have "\<not> ?n > MAX_BYTE_CODE_LENGTH"
    by (simp add: MAX_BYTE_CODE_LENGTH_def)
  then have h: "hash_byte_code d bytecode = Inr (big_endian 2 ?n @ drop 2 (sha256 d bytecode))"
    by (simp add: hash_byte_code_def Let_def tb)
  have v: "from_bytes (big_endian 2 ?n) = ?n"
    using small by (rule from_bytes_big_endian)
  show ?thesis
    using assms(2) v by (simp add: h big_endian_length)
qed

theorem hash_byte_code_format_witness:
  "length (replicate 64 (7 :: 8 word)) div 32 \<le> 65535
   \<and> length (sha256 sample_deployer (replicate 64 7)) = 32
   \<and> (\<exists>h. hash_byte_code sample_deployer (replicate 64 7) = Inr h
           \<and> length h = 32
           \<and> take 2 h = big_endian 2 (length (replicate 64 (7 :: 8 word)) div 32)
           \<and> from_bytes (take 2 h) = length (replicate 64 (7 :: 8 word)) div 32
           \<and> drop 2 h = take 30 (drop 2 (sha256 sample_deployer (replicate 64 7))))"
  using hash_byte_code_format [of "replicate 64 7" sample_deployer]
  by (simp add: sample_deployer_def sample_digest_def)

text \<open>
  C10. The length of the bytecode need not be a multiple of 32. For a bytecode of at most
  65535 complete words whose length is not a multiple of 32, \<open>hash_byte_code\<close> returns a
  hash: its first two bytes count the complete words only, so the bytes after the last
  complete word are not counted, and the rest is taken from the digest of the whole
  bytecode. \<open>encode_create\<close>, \<open>encode_create2\<close> (with the default salt) and
  \<open>compute_l2_create2_address\<close> (with a salt of 32 bytes) succeed on it too.
\<close>

theorem partial_word_accepted:
  assumes "length bytecode div 32 \<le> 65535" and "length bytecode mod 32 \<noteq> 0"
  shows "\<exists>h. hash_byte_code d bytecode = Inr h
           \<and> take 2 h = big_endian 2 (length bytecode div 32)
           \<and> from_bytes (take 2 h) = length bytecode div 32
           \<and> 32 * from_bytes (take 2 h) < length bytecode
           \<and> drop 2 h = drop 2 (sha256 d bytecode)
           \<and> encode_create d bytecode call_data None
               = Inr (encodeABI d ''create''
                   [ArgBytes (replicate 32 0), ArgBytes h, ArgInt 0,
                    ArgBytes (case call_data of None \<Rightarrow> [] | Some c \<Rightarrow> c)])
           \<and> encode_create2 d bytecode call_data None
               = Inr (encodeABI d ''create2''
                   [ArgBytes (replicate 32 0), ArgBytes h, ArgInt 0,
                    ArgBytes (case call_data of None \<Rightarrow> [] | Some c \<Rightarrow> c)])
           \<and> (\<forall>salt. length salt = 32 \<longrightarrow>
                (\<exists>a. compute_l2_create2_address d sender bytecode constructor salt = Inr a))"
proof -
  let ?n = "length bytecode div 32"
  let ?h = "big_endian 2 ?n @ drop 2 (sha256 d bytecode)"
  have h: "hash_byte_code d bytecode = Inr ?h"
    using assms(1) by (rule hash_byte_code_ok)
  from assms(1) have "?n < 256 ^ 2" by simp
  then have v: "from_bytes (big_endian 2 ?n) = ?n"
    by (rule from_bytes_big_endian)
  have w: "32 * ?n < length bytecode"
  proof -
    have "32 * ?n + length bytecode mod 32 = length bytecode" by simp
    with assms(2) show ?thesis by linarith
  qed
  have e: "encode_create d bytecode call_data None
      = Inr (encodeABI d ''create''
          [ArgBytes (replicate 32 0), ArgBytes ?h, ArgInt 0,
           ArgBytes (case call_data of None \<Rightarrow> [] | Some c \<Rightarrow> c)])"
    by (simp add: encode_create_def h Let_def DEFAULT_SALT_def EMPTY_BYTES_def CREATE_FUNC_def
        split: option.splits)
  have e2: "encode_create2 d bytecode call_data None
      = Inr (encodeABI d ''create2''
          [ArgBytes (replicate 32 0), ArgBytes ?h, ArgInt 0,
           ArgBytes (case call_data of None \<Rightarrow> [] | Some c \<Rightarrow> c)])"
    by (simp add: encode_create2_def h Let_def DEFAULT_SALT_def EMPTY_BYTES_def CREATE2_FUNC_def
        split: option.splits)
  have c: "\<exists>a. compute_l2_create2_address d sender bytecode constructor salt = Inr a"
    if "length salt = 32" for salt
    using that by (simp add: compute_l2_create2_address_def create2_result_def h Let_def)
  have t: "take 2 ?h = big_endian 2 ?n" and dr: "drop 2 ?h = drop 2 (sha256 d bytecode)"
    by (simp_all add: big_endian_length)
  from v w t have vt: "from_bytes (take 2 ?h) = ?n" and wt: "32 * from_bytes (take 2 ?h) < length bytecode"
    by simp_all
  from h t dr vt wt e e2 c show ?thesis
    by blast
qed

theorem partial_word_accepted_witness:
  "length (replicate 33 (1 :: 8 word)) div 32 \<le> 65535
   \<and> length (replicate 33 (1 :: 8 word)) mod 32 \<noteq> 0
   \<and> (\<exists>h. hash_byte_code sample_deployer (replicate 33 1) = Inr h
        \<and> from_bytes (take 2 h) = 1
        \<and> 32 * from_bytes (take 2 h) < length (replicate 33 (1 :: 8 word))
        \<and> drop 2 h = drop 2 (sha256 sample_deployer (replicate 33 1))
        \<and> encode_create2 sample_deployer (replicate 33 1) None None
            = Inr (''create2'', [ArgBytes (replicate 32 0), ArgBytes h, ArgInt 0, ArgBytes []])
        \<and> (\<exists>a. compute_l2_create2_address sample_deployer ''0xab'' (replicate 33 1) []
                 (replicate 32 0) = Inr a))"
proof -
  have a: "length (replicate 33 (1 :: 8 word)) div 32 \<le> 65535" by simp
  have b: "length (replicate 33 (1 :: 8 word)) mod 32 \<noteq> 0" by simp
  from partial_word_accepted [OF a b, of sample_deployer None "''0xab''" "[]"]
  obtain h where h: "hash_byte_code sample_deployer (replicate 33 1) = Inr h"
    and v: "from_bytes (take 2 h) = length (replicate 33 (1 :: 8 word)) div 32"
    and w: "32 * from_bytes (take 2 h) < length (replicate 33 (1 :: 8 word))"
    and dr: "drop 2 h = drop 2 (sha256 sample_deployer (replicate 33 1))"
    and e2: "encode_create2 sample_deployer (replicate 33 1) None None
        = Inr (encodeABI sample_deployer ''create2''
            [ArgBytes (replicate 32 0), ArgBytes h, ArgInt 0,
             ArgBytes (case None of None \<Rightarrow> [] | Some c \<Rightarrow> c)])"
    and c: "\<forall>salt. length salt = 32 \<longrightarrow>
        (\<exists>a. compute_l2_create2_address sample_deployer ''0xab'' (replicate 33 1) [] salt = Inr a)"
    by blast
  from v have v1: "from_bytes (take 2 h) = 1" by simp
  from e2 have e3: "encode_create2 sample_deployer (replicate 33 1) None None
      = Inr (''create2'', [ArgBytes (replicate 32 0), ArgBytes h, ArgInt 0, ArgBytes []])"
    by (simp add: sample_deployer_def)
  from c have c1: "\<exists>a. compute_l2_create2_address sample_deployer ''0xab'' (replicate 33 1) []
      (replicate 32 0) = Inr a"
    by simp
  from a b h v1 w dr e3 c1 show ?thesis by blast
qed

subsection \<open>Address derivation\<close>

text \<open>
  C3. For a salt of 32 bytes, a bytecode of at most 65535 words, any sender and any
  constructor bytes, and a Keccak digest of 32 bytes, \<open>compute_l2_create2_address\<close>
  returns the checksum form of the low 20 bytes \<open>digest[12:32]\<close> of the Keccak digest of
  \<open>keccak("zksyncCreate2") ++ left_zero_pad32(sender) ++ salt ++ hash_byte_code(bytecode)
  ++ keccak(constructor)\<close>.
\<close>

theorem compute_l2_create2_address_spec:
  assumes "length salt = 32"
    and "length bytecode div 32 \<le> 65535"
    and "\<forall>bs. length (keccak d bs) = 32"
  shows "\<exists>h. hash_byte_code d bytecode = Inr h
           \<and> compute_l2_create2_address d sender bytecode constructor salt
               = Inr (spec_create2_address d sender salt h constructor)"
proof -
  let ?h = "big_endian 2 (length bytecode div 32) @ drop 2 (sha256 d bytecode)"
  have h: "hash_byte_code d bytecode = Inr ?h"
    using assms(2) by (rule hash_byte_code_ok)
  have r: "create2_result d sender bytecode constructor salt
      = Inr (CREATE2_PREFIX d @ spec_left_zero_pad32 (get_data d sender) @ salt @ ?h
             @ keccak d constructor)"
    using assms(1) by (simp add: create2_result_def h Let_def pad_front_bytes_32)
  have "compute_l2_create2_address d sender bytecode constructor salt
      = Inr (spec_create2_address d sender salt ?h constructor)"
    using assms(3)
    by (simp add: compute_l2_create2_address_def r Let_def spec_create2_address_def
        spec_checksum_formatted_def drop_12_digest CREATE2_PREFIX_def spec_domain_prefix_def)
  with h show ?thesis by blast
qed

theorem compute_l2_create2_address_spec_witness:
  "length (replicate 32 (5 :: 8 word)) = 32
   \<and> length (replicate 33 (1 :: 8 word)) div 32 \<le> 65535
   \<and> (\<forall>bs. length (keccak sample_deployer bs) = 32)
   \<and> (\<exists>h. hash_byte_code sample_deployer (replicate 33 1) = Inr h
        \<and> compute_l2_create2_address sample_deployer ''0xab'' (replicate 33 1) [1, 2, 3]
             (replicate 32 5)
            = Inr (spec_create2_address sample_deployer ''0xab'' (replicate 32 5) h [1, 2, 3]))"
  using compute_l2_create2_address_spec
    [of "replicate 32 5" "replicate 33 1" sample_deployer "''0xab''" "[1, 2, 3]"]
  by (simp add: sample_deployer_def sample_digest_def)

text \<open>
  C4. In the salted derivation the hash of the constructor arguments is the Keccak digest
  of the bytes as they were passed: the hashed byte string \<open>result\<close> of line 124 ends with
  \<open>keccak(constructor)\<close>, whatever the other libraries are, and what stands before it does
  not depend on the constructor bytes. For the empty sequence it ends with the digest of
  the empty input; where Keccak tells the empty input from a word of 32 zero bytes, so does
  \<open>result\<close>.
\<close>

theorem create2_ctor_hash_raw:
  assumes "length salt = 32" and "hash_byte_code d bytecode = Inr h"
  shows "create2_result d sender bytecode constructor salt
           = Inr ((CREATE2_PREFIX d @ pad_front_bytes (get_data d sender) 32 @ salt @ h)
                  @ keccak d constructor)
         \<and> create2_result d sender bytecode [] salt
           = Inr ((CREATE2_PREFIX d @ pad_front_bytes (get_data d sender) 32 @ salt @ h)
                  @ keccak d [])
         \<and> (keccak d [] \<noteq> keccak d (replicate 32 0) \<longrightarrow>
              create2_result d sender bytecode [] salt
                \<noteq> create2_result d sender bytecode (replicate 32 0) salt)
         \<and> compute_l2_create2_address d sender bytecode constructor salt
           = Inr (toChecksumAddress d (''0x'' @ bytes_hex (drop 12 (keccak d
               ((CREATE2_PREFIX d @ pad_front_bytes (get_data d sender) 32 @ salt @ h)
                @ keccak d constructor)))))"
proof -
  have r: "create2_result d sender bytecode c salt
      = Inr ((CREATE2_PREFIX d @ pad_front_bytes (get_data d sender) 32 @ salt @ h)
             @ keccak d c)" for c
    using assms by (simp add: create2_result_def Let_def)
  show ?thesis
    by (simp add: r compute_l2_create2_address_def Let_def)
qed

theorem create2_ctor_hash_raw_witness:
  "length (replicate 32 (9 :: 8 word)) = 32
   \<and> hash_byte_code sample_deployer (replicate 32 1)
       = Inr (big_endian 2 1 @ drop 2 (sample_digest (replicate 32 1)))
   \<and> keccak sample_deployer [] \<noteq> keccak sample_deployer (replicate 32 0)
   \<and> create2_result sample_deployer ''0xab'' (replicate 32 1) [] (replicate 32 9)
       = Inr ((CREATE2_PREFIX sample_deployer
               @ pad_front_bytes (get_data sample_deployer ''0xab'') 32
               @ replicate 32 9
               @ big_endian 2 1 @ drop 2 (sample_digest (replicate 32 1)))
              @ keccak sample_deployer [])
   \<and> create2_result sample_deployer ''0xab'' (replicate 32 1) [] (replicate 32 9)
       \<noteq> create2_result sample_deployer ''0xab'' (replicate 32 1) (replicate 32 0)
            (replicate 32 9)"
proof -
  have s: "length (replicate 32 (9 :: 8 word)) = 32" by simp
  have h: "hash_byte_code sample_deployer (replicate 32 1)
       = Inr (big_endian 2 1 @ drop 2 (sample_digest (replicate 32 1)))"
    by (simp add: hash_byte_code_ok sample_deployer_def)
  have k: "keccak sample_deployer [] \<noteq> keccak sample_deployer (replicate 32 0)"
    by (simp add: sample_deployer_def sample_digest_def)
  from create2_ctor_hash_raw [OF s h, of "''0xab''" "[]"] s h k show ?thesis
    by blast
qed

text \<open>
  C5. For every sender and nonce, and a Keccak digest of 32 bytes,
  \<open>compute_l2_create_address\<close> returns the checksum form of the low 20 bytes
  \<open>digest[12:32]\<close> of the Keccak digest of
  \<open>keccak("zksyncCreate") ++ left_zero_pad32(sender) ++ left_zero_pad32(big_endian(nonce))\<close>.
  The prefix is the digest of the twelve UTF-8 bytes of the text \<open>zksyncCreate\<close>, the same
  for every call. The padded nonce denotes the nonce, and for a nonce below \<open>2^256\<close> it is
  its big-endian form on 32 bytes.
\<close>

theorem compute_l2_create_address_spec:
  assumes "\<forall>bs. length (keccak d bs) = 32"
  shows "compute_l2_create_address d sender nonce = spec_create_address d sender nonce
         \<and> CREATE_PREFIX d = spec_domain_prefix d ''zksyncCreate''
         \<and> text_bytes ''zksyncCreate''
             = [0x7a, 0x6b, 0x73, 0x79, 0x6e, 0x63, 0x43, 0x72, 0x65, 0x61, 0x74, 0x65]
         \<and> from_bytes (spec_left_zero_pad32 (int_to_bytes nonce)) = nonce
         \<and> (nonce < 2 ^ 256 \<longrightarrow>
              spec_left_zero_pad32 (int_to_bytes nonce) = big_endian 32 nonce)"
proof -
  have a: "compute_l2_create_address d sender nonce = spec_create_address d sender nonce"
    using assms
    by (simp add: compute_l2_create_address_def Let_def spec_create_address_def
        spec_checksum_formatted_def drop_12_digest CREATE_PREFIX_def spec_domain_prefix_def
        pad_front_bytes_32)
  have b: "CREATE_PREFIX d = spec_domain_prefix d ''zksyncCreate''"
    by (simp add: CREATE_PREFIX_def spec_domain_prefix_def)
  have c: "text_bytes ''zksyncCreate''
             = [0x7a, 0x6b, 0x73, 0x79, 0x6e, 0x63, 0x43, 0x72, 0x65, 0x61, 0x74, 0x65]"
    by (simp add: text_bytes_def)
  have e: "from_bytes (spec_left_zero_pad32 (int_to_bytes nonce)) = nonce"
    by (simp add: spec_left_zero_pad32_def from_bytes_zeros from_bytes_int_to_bytes)
  have f: "spec_left_zero_pad32 (int_to_bytes nonce) = big_endian 32 nonce"
    if "nonce < 2 ^ 256"
  proof -
    have "(2 :: nat) ^ 256 = 256 ^ 32" by simp
    with that have "nonce < 256 ^ 32" by simp
    then show ?thesis
      unfolding spec_left_zero_pad32_def by (rule pad_int_to_bytes)
  qed
  from a b c e f show ?thesis by blast
qed

theorem compute_l2_create_address_spec_witness:
  "(\<forall>bs. length (keccak sample_deployer bs) = 32)
   \<and> (258 :: nat) < 2 ^ 256
   \<and> compute_l2_create_address sample_deployer ''0xab'' 258
       = spec_create_address sample_deployer ''0xab'' 258
   \<and> from_bytes (spec_left_zero_pad32 (int_to_bytes 258)) = 258
   \<and> spec_left_zero_pad32 (int_to_bytes 258) = big_endian 32 258"
proof -
  have k: "\<forall>bs. length (keccak sample_deployer bs) = 32"
    by (simp add: sample_deployer_def sample_digest_def)
  have n: "(258 :: nat) < 2 ^ 256" by simp
  from compute_l2_create_address_spec [OF k, of "''0xab''" 258] k n show ?thesis
    by blast
qed

subsection \<open>Calldata\<close>

text \<open>
  C6. A salt that is given and whose length is not 32 makes \<open>compute_l2_create2_address\<close>,
  \<open>encode_create\<close> and \<open>encode_create2\<close> raise \<open>OverflowError\<close> with the text
  \<open>Salt data must be 32 length\<close>, whatever the other arguments are; nothing is returned.
\<close>

theorem salt_length_checked:
  assumes "length salt \<noteq> 32"
  shows "compute_l2_create2_address d sender bytecode constructor salt
           = Inl (OverflowError ''Salt data must be 32 length'')
         \<and> encode_create d bytecode call_data (Some salt)
           = Inl (OverflowError ''Salt data must be 32 length'')
         \<and> encode_create2 d bytecode call_data (Some salt)
           = Inl (OverflowError ''Salt data must be 32 length'')"
  using assms
  by (simp add: compute_l2_create2_address_def create2_result_def encode_create_def
      encode_create2_def Let_def)

theorem salt_length_checked_witness:
  "length (replicate 31 (0 :: 8 word)) \<noteq> 32
   \<and> length (replicate 33 (0 :: 8 word)) \<noteq> 32
   \<and> compute_l2_create2_address sample_deployer ''0xab'' (replicate 64 1) [] (replicate 31 0)
       = Inl (OverflowError ''Salt data must be 32 length'')
   \<and> encode_create sample_deployer (replicate 64 1) None (Some (replicate 31 0))
       = Inl (OverflowError ''Salt data must be 32 length'')
   \<and> encode_create2 sample_deployer (replicate 64 1) None (Some (replicate 33 0))
       = Inl (OverflowError ''Salt data must be 32 length'')"
proof -
  have a: "length (replicate 31 (0 :: 8 word)) \<noteq> 32" by simp
  have b: "length (replicate 33 (0 :: 8 word)) \<noteq> 32" by simp
  from salt_length_checked [OF a, of sample_deployer "''0xab''" "replicate 64 1" "[]" None]
    salt_length_checked [OF b, of sample_deployer "''0xab''" "replicate 64 1" "[]" None]
    a b
  show ?thesis by blast
qed

text \<open>
  C7. When the salt is left out or has 32 bytes and the bytecode has a hash,
  \<open>encode_create\<close> and \<open>encode_create2\<close> return what the ABI encoder returns for the name
  \<open>create\<close> (respectively \<open>create2\<close>) and the arguments salt, bytecode hash, \<open>0\<close>, call
  data, in this order. A salt that is left out is 32 zero bytes and call data that is left
  out is the empty byte string. The encoder is arbitrary here, so this holds also for an
  encoder that returns its two arguments unchanged.
\<close>

theorem encode_create_arguments:
  assumes "salt = None \<or> (\<exists>s. salt = Some s \<and> length s = 32)"
    and "hash_byte_code d bytecode = Inr h"
  shows "encode_create d bytecode call_data salt
           = Inr (encodeABI d ''create''
               [ArgBytes (case salt of None \<Rightarrow> replicate 32 0 | Some s \<Rightarrow> s),
                ArgBytes h,
                ArgInt 0,
                ArgBytes (case call_data of None \<Rightarrow> [] | Some c \<Rightarrow> c)])
         \<and> encode_create2 d bytecode call_data salt
           = Inr (encodeABI d ''create2''
               [ArgBytes (case salt of None \<Rightarrow> replicate 32 0 | Some s \<Rightarrow> s),
                ArgBytes h,
                ArgInt 0,
                ArgBytes (case call_data of None \<Rightarrow> [] | Some c \<Rightarrow> c)])
         \<and> encode_create d bytecode None None
           = encode_create d bytecode (Some []) (Some (replicate 32 0))
         \<and> encode_create2 d bytecode None None
           = encode_create2 d bytecode (Some []) (Some (replicate 32 0))"
  using assms
  by (auto simp add: encode_create_def encode_create2_def Let_def DEFAULT_SALT_def
      EMPTY_BYTES_def CREATE_FUNC_def CREATE2_FUNC_def split: option.splits)

theorem encode_create_arguments_witness:
  "hash_byte_code sample_deployer (replicate 32 1)
     = Inr (big_endian 2 1 @ drop 2 (sample_digest (replicate 32 1)))
   \<and> encode_create sample_deployer (replicate 32 1) None None
     = Inr (''create'',
         [ArgBytes (replicate 32 0),
          ArgBytes (big_endian 2 1 @ drop 2 (sample_digest (replicate 32 1))),
          ArgInt 0,
          ArgBytes []])
   \<and> encode_create2 sample_deployer (replicate 32 1) None None
     = Inr (''create2'',
         [ArgBytes (replicate 32 0),
          ArgBytes (big_endian 2 1 @ drop 2 (sample_digest (replicate 32 1))),
          ArgInt 0,
          ArgBytes []])"
proof -
  have s: "(None :: bytes option) = None \<or> (\<exists>s. None = Some s \<and> length s = 32)" by simp
  have h: "hash_byte_code sample_deployer (replicate 32 1)
       = Inr (big_endian 2 1 @ drop 2 (sample_digest (replicate 32 1)))"
    by (simp add: hash_byte_code_ok sample_deployer_def)
  from encode_create_arguments [OF s h, of None] h show ?thesis
    by (simp add: sample_deployer_def)
qed

text \<open>
  What the module itself does with empty call data: nothing of its own. Call data that is
  left out and call data given as the empty byte string reach the encoder as the same
  argument \<open>ArgBytes []\<close>, so the bytes that stand for it in the calldata are whatever the
  encoder of the \<open>web3\<close> library writes for an empty byte string.
\<close>

lemma encode_create2_empty_call_data:
  "encode_create2 d bytecode (Some []) salt = encode_create2 d bytecode None salt
   \<and> (encode_create2 d bytecode None None = Inr c \<longrightarrow>
        (\<exists>h. hash_byte_code d bytecode = Inr h
           \<and> c = encodeABI d ''create2''
                 [ArgBytes (replicate 32 0), ArgBytes h, ArgInt 0, ArgBytes []]))"
  by (auto simp add: encode_create2_def Let_def DEFAULT_SALT_def EMPTY_BYTES_def
      CREATE2_FUNC_def split: sum.splits)

subsection \<open>The deployed address of a receipt\<close>

text \<open>
  C9. \<open>extract_contract_address\<close> reads the second decoded \<open>ContractDeployed\<close> event of
  the receipt (index 1). With fewer than two events it raises \<open>IndexError\<close> (the event is
  not found), so also with exactly one; with two or more and no \<open>contractAddress\<close> among
  the arguments of the second it raises \<open>KeyError\<close> (the field is missing); otherwise it
  returns the \<open>contractAddress\<close> of the second event.
\<close>

theorem extract_contract_address_second_entry:
  "(length (processReceipt d receipt) < 2 \<longrightarrow>
      (\<exists>msg. extract_contract_address d receipt = Inl (IndexError msg)))
   \<and> (2 \<le> length (processReceipt d receipt)
        \<and> args (processReceipt d receipt ! 1) ''contractAddress'' = None \<longrightarrow>
      (\<exists>msg. extract_contract_address d receipt = Inl (KeyError msg)))
   \<and> (2 \<le> length (processReceipt d receipt)
        \<and> args (processReceipt d receipt ! 1) ''contractAddress'' = Some addr \<longrightarrow>
      extract_contract_address d receipt = Inr addr)"
  by (simp add: extract_contract_address_def Let_def)

theorem extract_contract_address_second_entry_witness:
  "length (processReceipt sample_deployer [sample_event ''contractAddress'' ''0xA1'']) < 2
   \<and> (\<exists>msg. extract_contract_address sample_deployer
          [sample_event ''contractAddress'' ''0xA1''] = Inl (IndexError msg))
   \<and> (\<exists>msg. extract_contract_address sample_deployer
          [sample_event ''contractAddress'' ''0xA1'', sample_event ''bytecodeHash'' ''0xB2'']
        = Inl (KeyError msg))
   \<and> extract_contract_address sample_deployer
          [sample_event ''contractAddress'' ''0xA1'', sample_event ''contractAddress'' ''0xC3'']
        = Inr ''0xC3''"
  using
    extract_contract_address_second_entry
      [of sample_deployer "[sample_event ''contractAddress'' ''0xA1'']" "''0xC3''"]
    extract_contract_address_second_entry
      [of sample_deployer
        "[sample_event ''contractAddress'' ''0xA1'', sample_event ''bytecodeHash'' ''0xB2'']"
        "''0xC3''"]
    extract_contract_address_second_entry
      [of sample_deployer
        "[sample_event ''contractAddress'' ''0xA1'', sample_event ''contractAddress'' ''0xC3'']"
        "''0xC3''"]
  by (simp add: sample_deployer_def sample_event_def)

end
